theory Spec2Isabelle
  imports Main "HOL-Library.Sublist" "HOL-Library.AList"
begin

section \<open>Text\<close>

text \<open>
  A Python \<open>str\<close> is modelled as a \<open>string\<close> whose characters are the code points
  below 256. The classification and case-mapping functions below are the ones of
  Python's \<open>str\<close> on that range: \<open>str.isspace\<close>, \<open>str.isdigit\<close> (which accepts the
  superscript digits U+00B2, U+00B3 and U+00B9 besides \<open>0\<close>..\<open>9\<close>), \<open>str.lower\<close> and
  \<open>str.upper\<close>. The upper-case forms of U+00B5 and U+00FF lie outside the range; the
  model leaves these two characters as they are.
\<close>

definition whitespace :: "char list" where
  "whitespace =
    [CHR 0x09, CHR 0x0A, CHR 0x0B, CHR 0x0C, CHR 0x0D, CHR 0x1C, CHR 0x1D, CHR 0x1E,
     CHR 0x1F, CHR 0x20, CHR 0x85, CHR 0xA0]"

definition isspace :: "char \<Rightarrow> bool" where
  "isspace c = (c \<in> set whitespace)"

definition decimal_digits :: "char list" where
  "decimal_digits = ''0123456789''"

definition superscript_digits :: "char list" where
  "superscript_digits = [CHR 0xB2, CHR 0xB3, CHR 0xB9]"

definition isdigit :: "string \<Rightarrow> bool" where
  "isdigit s = (s \<noteq> [] \<and> list_all (\<lambda>c. c \<in> set (decimal_digits @ superscript_digits)) s)"

definition upper_letters :: "char list" where
  "upper_letters = ''ABCDEFGHIJKLMNOPQRSTUVWXYZ'' @
    [CHR 0xC0, CHR 0xC1, CHR 0xC2, CHR 0xC3, CHR 0xC4, CHR 0xC5, CHR 0xC6, CHR 0xC7,
     CHR 0xC8, CHR 0xC9, CHR 0xCA, CHR 0xCB, CHR 0xCC, CHR 0xCD, CHR 0xCE, CHR 0xCF,
     CHR 0xD0, CHR 0xD1, CHR 0xD2, CHR 0xD3, CHR 0xD4, CHR 0xD5, CHR 0xD6, CHR 0xD8,
     CHR 0xD9, CHR 0xDA, CHR 0xDB, CHR 0xDC, CHR 0xDD, CHR 0xDE]"

definition lower_letters :: "char list" where
  "lower_letters = ''abcdefghijklmnopqrstuvwxyz'' @
    [CHR 0xE0, CHR 0xE1, CHR 0xE2, CHR 0xE3, CHR 0xE4, CHR 0xE5, CHR 0xE6, CHR 0xE7,
     CHR 0xE8, CHR 0xE9, CHR 0xEA, CHR 0xEB, CHR 0xEC, CHR 0xED, CHR 0xEE, CHR 0xEF,
     CHR 0xF0, CHR 0xF1, CHR 0xF2, CHR 0xF3, CHR 0xF4, CHR 0xF5, CHR 0xF6, CHR 0xF8,
     CHR 0xF9, CHR 0xFA, CHR 0xFB, CHR 0xFC, CHR 0xFD, CHR 0xFE]"

definition lower_char :: "char \<Rightarrow> char" where
  "lower_char c = (case map_of (zip upper_letters lower_letters) c of None \<Rightarrow> c | Some d \<Rightarrow> d)"

definition upper_char :: "char \<Rightarrow> string" where
  "upper_char c =
     (if c = CHR 0xDF then ''SS''
      else case map_of (zip lower_letters upper_letters) c of None \<Rightarrow> [c] | Some d \<Rightarrow> [d])"

definition lower :: "string \<Rightarrow> string" where
  "lower s = map lower_char s"

definition upper :: "string \<Rightarrow> string" where
  "upper s = concat (map upper_char s)"

text \<open>\<open>s.strip()\<close>: leading and trailing whitespace removed.\<close>

definition strip :: "string \<Rightarrow> string" where
  "strip s = rev (dropWhile isspace (rev (dropWhile isspace s)))"

text \<open>
  \<open>s.split()\<close>: the maximal runs of non-whitespace characters, in order. The second
  argument of \<open>split_run\<close> is the run being read, reversed.
\<close>

fun split_run :: "string \<Rightarrow> string \<Rightarrow> string list" where
  "split_run [] cur = (if cur = [] then [] else [rev cur])"
| "split_run (c # cs) cur =
     (if isspace c then (if cur = [] then split_run cs [] else rev cur # split_run cs [])
      else split_run cs (c # cur))"

definition split :: "string \<Rightarrow> string list" where
  "split s = split_run s []"

text \<open>\<open>needle in hay\<close> on strings, and \<open>sep.join(parts)\<close>.\<close>

fun contains :: "string \<Rightarrow> string \<Rightarrow> bool" where
  "contains needle [] = (needle = [])"
| "contains needle (c # cs) = (prefix needle (c # cs) \<or> contains needle cs)"

fun join :: "string \<Rightarrow> string list \<Rightarrow> string" where
  "join sep [] = []"
| "join sep [x] = x"
| "join sep (x # y # ys) = x @ sep @ join sep (y # ys)"

definition quoted :: "string \<Rightarrow> string" where
  "quoted s = CHR 0x27 # s @ [CHR 0x27]"

text \<open>\<open>str(i)\<close> for an integer.\<close>

fun str_nat :: "nat \<Rightarrow> string" where
  "str_nat n =
     (if n < 10 then [decimal_digits ! n]
      else str_nat (n div 10) @ [decimal_digits ! (n mod 10)])"

declare str_nat.simps [simp del]

definition str_int :: "int \<Rightarrow> string" where
  "str_int i = (if i < 0 then CHR ''-'' # str_nat (nat (- i)) else str_nat (nat i))"

section \<open>Python values and exceptions\<close>

text \<open>
  The exceptions the modelled code can meet, with the text \<open>str(e)\<close> that the handlers
  embed in their replies. \<open>EnvError\<close> carries the text of an exception raised by the
  operating system or a library (a missing tool, an I/O error).
\<close>

datatype py_exn =
    AttributeError string string
  | NotIterable string
  | ValueError string
  | EnvError string

fun exn_str :: "py_exn \<Rightarrow> string" where
  "exn_str (AttributeError ty attr) =
     quoted ty @ '' object has no attribute '' @ quoted attr"
| "exn_str (NotIterable ty) = quoted ty @ '' object is not iterable''"
| "exn_str (ValueError msg) = msg"
| "exn_str (EnvError msg) = msg"

definition bind :: "py_exn + 'a \<Rightarrow> ('a \<Rightarrow> py_exn + 'b) \<Rightarrow> py_exn + 'b" where
  "bind m f = (case m of Inl e \<Rightarrow> Inl e | Inr x \<Rightarrow> f x)"

text \<open>
  \<open>int(s)\<close> for a string that passed \<open>isdigit\<close>, as CPython 3.11 does it: the leading
  decimal digits are counted, and more than 4300 of them raise \<open>ValueError\<close>;
  otherwise the decimal value when every character is one of \<open>0\<close>..\<open>9\<close>, and
  \<open>ValueError\<close> with the first 200 characters of the \<open>repr\<close> of the string when not
  (a superscript digit is not a decimal character).
\<close>

definition digit_val :: "char \<Rightarrow> int" where
  "digit_val c = int (of_char c) - 48"

definition py_int :: "string \<Rightarrow> py_exn + int" where
  "py_int s =
     (let digits = length (takeWhile (\<lambda>c. c \<in> set decimal_digits) s) in
      if 4300 < digits
      then Inl (ValueError
             (''Exceeds the limit (4300 digits) for integer string conversion: value has ''
              @ str_nat digits
              @ '' digits; use sys.set_int_max_str_digits() to increase the limit''))
      else if s \<noteq> [] \<and> list_all (\<lambda>c. c \<in> set decimal_digits) s
      then Inr (foldl (\<lambda>acc c. 10 * acc + digit_val c) 0 s)
      else Inl (ValueError
             (''invalid literal for int() with base 10: '' @ take 200 (quoted s))))"

text \<open>
  What \<open>yaml.safe_load\<close> returns: \<open>None\<close>, booleans, integers, strings, lists and
  dictionaries with string keys (floats, timestamps and other key types are left out).

  A dictionary is an object: the value \<open>YDict a\<close> is a reference to the dictionary at
  the address \<open>a\<close> of the heap, which holds its items as an association list in
  insertion order. Two places of a document hold the same object when they hold the
  same address; \<open>yaml.safe_load\<close> builds that for an anchor and its aliases. The
  program writes into dictionaries only, so a list is the value of its elements.
\<close>

datatype yaml =
    YNone
  | YBool bool
  | YInt int
  | YStr string
  | YList "yaml list"
  | YDict nat

type_synonym dict_heap = "nat \<Rightarrow> (string \<times> yaml) list"

fun type_name :: "yaml \<Rightarrow> string" where
  "type_name YNone = ''NoneType''"
| "type_name (YBool b) = ''bool''"
| "type_name (YInt i) = ''int''"
| "type_name (YStr s) = ''str''"
| "type_name (YList l) = ''list''"
| "type_name (YDict a) = ''dict''"

text \<open>Truth value of an object, as \<open>not x\<close> and \<open>if x\<close> take it.\<close>

fun truthy :: "dict_heap \<Rightarrow> yaml \<Rightarrow> bool" where
  "truthy h YNone = False"
| "truthy h (YBool b) = b"
| "truthy h (YInt i) = (i \<noteq> 0)"
| "truthy h (YStr s) = (s \<noteq> [])"
| "truthy h (YList l) = (l \<noteq> [])"
| "truthy h (YDict a) = (h a \<noteq> [])"

text \<open>\<open>x.get(k, default)\<close>: only a dictionary has the method.\<close>

fun py_get :: "dict_heap \<Rightarrow> yaml \<Rightarrow> string \<Rightarrow> yaml \<Rightarrow> py_exn + yaml" where
  "py_get h (YDict a) k dflt = Inr (case map_of (h a) k of None \<Rightarrow> dflt | Some v \<Rightarrow> v)"
| "py_get h y k dflt = Inl (AttributeError (type_name y) ''get'')"

text \<open>
  The same lookup without a default: \<open>None\<close> when the dictionary has no such key.
\<close>

fun py_find :: "dict_heap \<Rightarrow> yaml \<Rightarrow> string \<Rightarrow> py_exn + yaml option" where
  "py_find h (YDict a) k = Inr (map_of (h a) k)"
| "py_find h y k = Inl (AttributeError (type_name y) ''get'')"

text \<open>\<open>x.lower()\<close> and \<open>x.upper()\<close>: only a string has the methods.\<close>

fun yaml_lower :: "yaml \<Rightarrow> py_exn + string" where
  "yaml_lower (YStr s) = Inr (lower s)"
| "yaml_lower y = Inl (AttributeError (type_name y) ''lower'')"

fun yaml_upper :: "yaml \<Rightarrow> py_exn + string" where
  "yaml_upper (YStr s) = Inr (upper s)"
| "yaml_upper y = Inl (AttributeError (type_name y) ''upper'')"

text \<open>
  \<open>for x in y\<close>: the elements of a list, the keys of a dictionary, the characters of a
  string; anything else is not iterable.
\<close>

fun py_iter :: "dict_heap \<Rightarrow> yaml \<Rightarrow> py_exn + yaml list" where
  "py_iter h (YList l) = Inr l"
| "py_iter h (YDict a) = Inr (map (\<lambda>p. YStr (fst p)) (h a))"
| "py_iter h (YStr s) = Inr (map (\<lambda>c. YStr [c]) s)"
| "py_iter h y = Inl (NotIterable (type_name y))"

text \<open>
  \<open>d[k] = v\<close> on a dictionary writes into the object: an existing key keeps its place,
  a new key is appended. Every place that holds the object sees the new item.
\<close>

fun set_item :: "dict_heap \<Rightarrow> yaml \<Rightarrow> string \<Rightarrow> yaml \<Rightarrow> dict_heap" where
  "set_item h (YDict a) k v = h(a := AList.update k v (h a))"
| "set_item h y k v = h"

text \<open>
  \<open>str(x)\<close>, as an f-string formats a value. The text of a list or a dictionary is
  Python's \<open>repr\<close>, which is no part of the program: it is the parameter \<open>rp\<close>.
\<close>

fun py_str :: "(yaml \<Rightarrow> string) \<Rightarrow> yaml \<Rightarrow> string" where
  "py_str rp YNone = ''None''"
| "py_str rp (YBool b) = (if b then ''True'' else ''False'')"
| "py_str rp (YInt i) = str_int i"
| "py_str rp (YStr s) = s"
| "py_str rp y = rp y"

section \<open>The environment and the state\<close>

text \<open>
  What a call of \<open>subprocess.run\<close> with \<open>capture_output=True, text=True\<close> gives: a
  completed process (return code, stdout, stderr), or an exception with its text.
\<close>

datatype proc = Completed int string string | Raised string

text \<open>
  What \<open>open(path, 'w')\<close> followed by \<open>yaml.dump\<close> into the file does: everything is
  written; or the open fails and the file is as before; or the open succeeds, which
  truncates the file, and the write fails after \<open>k\<close> characters of the text.
\<close>

datatype write_result = Written | OpenFailed | WriteFailed nat

text \<open>
  The environment answers every external operation. Its answers may change with time:
  the first argument of \<open>run\<close>, \<open>fs_write\<close> and \<open>fs_read\<close> is the number of external
  operations made so far. \<open>dump\<close> is \<open>yaml.dump\<close> with \<open>default_flow_style=False\<close>,
  \<open>parse\<close> is \<open>yaml.safe_load\<close> (\<open>None\<close> when it raises; otherwise the document and
  the heap of its dictionaries), \<open>repr\<close> is Python's \<open>repr\<close>.
\<close>

record env =
  run :: "nat \<Rightarrow> string list \<Rightarrow> proc"
  fs_write :: "nat \<Rightarrow> write_result"
  fs_read :: "nat \<Rightarrow> bool"
  dump :: "dict_heap \<Rightarrow> yaml \<Rightarrow> string"
  parse :: "string \<Rightarrow> (yaml \<times> dict_heap) option"
  repr :: "dict_heap \<Rightarrow> yaml \<Rightarrow> string"

text \<open>
  The state: the document in memory (\<open>self.config\<close>, \<open>None\<close> until a load succeeds)
  with the heap of its dictionaries, the text of the configuration file, the
  argument vectors of the processes run so far, oldest first, and the number of
  external operations made so far.
\<close>

record world =
  config :: yaml
  heap :: dict_heap
  disk :: string
  calls :: "string list list"
  steps :: nat

definition subprocess_run :: "env \<Rightarrow> string list \<Rightarrow> world \<Rightarrow> proc \<times> world" where
  "subprocess_run E argv w =
     (run E (steps w) argv, w\<lparr>calls := calls w @ [argv], steps := Suc (steps w)\<rparr>)"

section \<open>TimebeatCLI\<close>

definition load_config :: "env \<Rightarrow> world \<Rightarrow> bool \<times> world" where
  "load_config E w =
     (let w1 = w\<lparr>steps := Suc (steps w)\<rparr> in
      if fs_read E (steps w) then
        (case parse E (disk w) of
           Some (doc, h) \<Rightarrow> (True, w1\<lparr>config := doc, heap := h\<rparr>)
         | None \<Rightarrow> (False, w1))
      else (False, w1))"

definition save_config :: "env \<Rightarrow> world \<Rightarrow> bool \<times> world" where
  "save_config E w =
     (let w1 = w\<lparr>steps := Suc (steps w)\<rparr> in
      case fs_write E (steps w) of
        Written \<Rightarrow> (True, w1\<lparr>disk := dump E (heap w) (config w)\<rparr>)
      | OpenFailed \<Rightarrow> (False, w1)
      | WriteFailed k \<Rightarrow> (False, w1\<lparr>disk := take k (dump E (heap w) (config w))\<rparr>))"

text \<open>\<open>TimebeatCLI.__init__\<close>: no document, then one attempt to load.\<close>

definition new_cli :: "env \<Rightarrow> string \<Rightarrow> world" where
  "new_cli E file_text =
     snd (load_config E
       \<lparr>config = YNone, heap = (\<lambda>a. []), disk = file_text, calls = [], steps = 0\<rparr>)"

definition get_status :: "env \<Rightarrow> world \<Rightarrow> string \<times> world" where
  "get_status E w =
     (case subprocess_run E [''systemctl'', ''status'', ''timebeat''] w of
        (Completed rc out err, w1) \<Rightarrow> (out, w1)
      | (Raised msg, w1) \<Rightarrow> (''Error getting status: '' @ msg, w1))"

definition start_service :: "env \<Rightarrow> world \<Rightarrow> string \<times> world" where
  "start_service E w =
     (case subprocess_run E [''systemctl'', ''start'', ''timebeat''] w of
        (Completed rc out err, w1) \<Rightarrow>
          (if rc = 0 then ''Timebeat service started successfully''
           else ''Failed to start timebeat: '' @ err, w1)
      | (Raised msg, w1) \<Rightarrow> (''Error starting service: '' @ msg, w1))"

definition stop_service :: "env \<Rightarrow> world \<Rightarrow> string \<times> world" where
  "stop_service E w =
     (case subprocess_run E [''systemctl'', ''stop'', ''timebeat''] w of
        (Completed rc out err, w1) \<Rightarrow>
          (if rc = 0 then ''Timebeat service stopped successfully''
           else ''Failed to stop timebeat: '' @ err, w1)
      | (Raised msg, w1) \<Rightarrow> (''Error stopping service: '' @ msg, w1))"

definition restart_service :: "env \<Rightarrow> world \<Rightarrow> string \<times> world" where
  "restart_service E w =
     (case subprocess_run E [''systemctl'', ''restart'', ''timebeat''] w of
        (Completed rc out err, w1) \<Rightarrow>
          (if rc = 0 then ''Timebeat service restarted successfully''
           else ''Failed to restart timebeat: '' @ err, w1)
      | (Raised msg, w1) \<Rightarrow> (''Error restarting service: '' @ msg, w1))"

definition get_logs :: "env \<Rightarrow> int \<Rightarrow> world \<Rightarrow> string \<times> world" where
  "get_logs E lines w =
     (case subprocess_run E [''journalctl'', ''-u'', ''timebeat'', ''-n'', str_int lines] w of
        (Completed rc out err, w1) \<Rightarrow> (out, w1)
      | (Raised msg, w1) \<Rightarrow> (''Error getting logs: '' @ msg, w1))"

text \<open>One \<open>try\<close> block holds both calls: an exception of either ends the function.\<close>

definition get_clock_sync_status :: "env \<Rightarrow> world \<Rightarrow> string \<times> world" where
  "get_clock_sync_status E w =
     (case subprocess_run E [''chrony'', ''sources''] w of
        (Raised msg, w1) \<Rightarrow> (''Error getting clock sync status: '' @ msg, w1)
      | (Completed rc1 out1 err1, w1) \<Rightarrow>
          (case subprocess_run E [''timedatectl'', ''status''] w1 of
             (Raised msg, w2) \<Rightarrow> (''Error getting clock sync status: '' @ msg, w2)
           | (Completed rc2 out2 err2, w2) \<Rightarrow> (out1 @ ''\<newline>'' @ out2, w2)))"

text \<open>
  \<open>self.config.get('timebeat', {}).get('clock_sync', {}).get(key, [])\<close>. A key that
  is absent gives the default \<open>{}\<close>, a new empty dictionary that no place of the
  document holds: every \<open>get\<close> on it gives its own default, so the result is \<open>[]\<close>.
\<close>

definition get_clocks :: "dict_heap \<Rightarrow> yaml \<Rightarrow> string \<Rightarrow> py_exn + yaml" where
  "get_clocks h doc key =
     bind (py_find h doc ''timebeat'') (\<lambda>tb.
       case tb of
         None \<Rightarrow> Inr (YList [])
       | Some timebeat \<Rightarrow>
           bind (py_find h timebeat ''clock_sync'') (\<lambda>cs.
             case cs of
               None \<Rightarrow> Inr (YList [])
             | Some clock_sync \<Rightarrow> py_get h clock_sync key (YList [])))"

text \<open>The body of the loops of \<open>list_protocols\<close>: one line for one clock.\<close>

definition render_clock :: "env \<Rightarrow> dict_heap \<Rightarrow> yaml \<Rightarrow> py_exn + string" where
  "render_clock E h clock =
     bind (py_get h clock ''protocol'' (YStr ''unknown'')) (\<lambda>protocol.
     bind (py_get h clock ''disable'' (YBool False)) (\<lambda>disabled.
     bind (py_get h clock ''device'' (YStr ''N/A'')) (\<lambda>dev.
     bind (py_get h clock ''ip'' dev) (\<lambda>ip.
     bind (py_get h clock ''interface'' ip) (\<lambda>interface.
     bind (yaml_upper protocol) (\<lambda>up.
     Inr (''  '' @ up @ '': '' @ (if truthy h disabled then ''DISABLED'' else ''ENABLED'')
          @ '' ('' @ py_str (repr E h) interface @ '')'')))))))"

fun render_clocks :: "env \<Rightarrow> dict_heap \<Rightarrow> yaml list \<Rightarrow> py_exn + string list" where
  "render_clocks E h [] = Inr []"
| "render_clocks E h (clock # rest) =
     bind (render_clock E h clock) (\<lambda>line.
     bind (render_clocks E h rest) (\<lambda>lines. Inr (line # lines)))"

definition list_protocols :: "env \<Rightarrow> dict_heap \<Rightarrow> yaml \<Rightarrow> string" where
  "list_protocols E h doc =
     (if \<not> truthy h doc then ''Configuration not loaded''
      else
        case
          bind (get_clocks h doc ''primary_clocks'') (\<lambda>primary_clocks.
          bind (get_clocks h doc ''secondary_clocks'') (\<lambda>secondary_clocks.
          bind (py_iter h primary_clocks) (\<lambda>ps.
          bind (render_clocks E h ps) (\<lambda>plines.
          bind (py_iter h secondary_clocks) (\<lambda>ss.
          bind (render_clocks E h ss) (\<lambda>slines.
          Inr ([''=== PRIMARY CLOCKS ===''] @ plines
               @ [''\<newline>=== SECONDARY CLOCKS ===''] @ slines)))))))
        of
          Inr protocols \<Rightarrow> join ''\<newline>'' protocols
        | Inl e \<Rightarrow> ''Error listing protocols: '' @ exn_str e)"

text \<open>
  The loop of \<open>toggle_protocol\<close> up to its \<open>return\<close>: the first clock whose protocol
  is the wanted one, with the value of its \<open>disable\<close>; \<open>None\<close> when the loop runs to
  its end; an exception when a clock before any match is not a dictionary or has a
  protocol that is not a string.
\<close>

fun find_clock :: "dict_heap \<Rightarrow> string \<Rightarrow> yaml list \<Rightarrow> py_exn + (yaml \<times> yaml) option" where
  "find_clock h protocol [] = Inr None"
| "find_clock h protocol (clock # rest) =
     bind (py_get h clock ''protocol'' (YStr [])) (\<lambda>p.
     bind (yaml_lower p) (\<lambda>lp.
     if lp = lower protocol
     then bind (py_get h clock ''disable'' (YBool False)) (\<lambda>current_status.
          Inr (Some (clock, current_status)))
     else find_clock h protocol rest))"

text \<open>
  \<open>toggle_protocol\<close>. The write \<open>clock['disable'] = not current_status\<close> goes into the
  object of the clock that the loop found.
\<close>

definition toggle_protocol :: "env \<Rightarrow> string \<Rightarrow> string \<Rightarrow> world \<Rightarrow> string \<times> world" where
  "toggle_protocol E protocol clock_type w =
     (if \<not> truthy (heap w) (config w) then (''Configuration not loaded'', w)
      else
        case
          bind (get_clocks (heap w) (config w) (clock_type @ ''_clocks'')) (\<lambda>clocks.
          bind (py_iter (heap w) clocks) (\<lambda>items. find_clock (heap w) protocol items))
        of
          Inl e \<Rightarrow> (''Error toggling protocol: '' @ exn_str e, w)
        | Inr None \<Rightarrow>
            (''Protocol '' @ protocol @ '' not found in '' @ clock_type @ '' clocks'', w)
        | Inr (Some (clock, current_status)) \<Rightarrow>
            (case save_config E
                  (w\<lparr>heap := set_item (heap w) clock ''disable''
                                (YBool (\<not> truthy (heap w) current_status))\<rparr>)
             of
               (True, w1) \<Rightarrow>
                 (''Protocol '' @ upper protocol @ '' ''
                    @ (if \<not> truthy (heap w) current_status then ''DISABLED'' else ''ENABLED'')
                    @ '' in '' @ clock_type @ '' clocks'', w1)
             | (False, w1) \<Rightarrow> (''Failed to save configuration'', w1)))"

section \<open>TimebeatSSHServer\<close>

text \<open>
  A handler takes the arguments of the command and returns the text of the reply,
  or raises. The handlers of the server that share a name with a method of
  \<open>TimebeatCLI\<close> carry the prefix \<open>srv\<close>.
\<close>

type_synonym handler = "env \<Rightarrow> string list \<Rightarrow> world \<Rightarrow> (py_exn + string) \<times> world"

definition help_text :: string where
  "help_text =
     ''\<newline>'' @
     ''Available Commands:\<newline>'' @
     ''------------------\<newline>'' @
     ''status          - Show timebeat service status\<newline>'' @
     ''start           - Start timebeat service\<newline>'' @
     ''stop            - Stop timebeat service  \<newline>'' @
     ''restart         - Restart timebeat service\<newline>'' @
     ''logs [lines]    - Show timebeat logs (default: 50 lines)\<newline>'' @
     ''protocols       - List all configured protocols\<newline>'' @
     ''enable <proto>  - Enable a protocol (ptp, ntp, pps, nmea, phc)\<newline>'' @
     ''disable <proto> - Disable a protocol\<newline>'' @
     ''clock           - Show clock synchronization status\<newline>'' @
     ''config          - Show current configuration\<newline>'' @
     ''reload          - Reload configuration from file\<newline>'' @
     ''help            - Show this help message\<newline>'' @
     ''exit/quit       - Exit the session\<newline>'' @
     ''\<newline>'' @
     ''Examples:\<newline>'' @
     ''---------\<newline>'' @
     ''timebeat> status\<newline>'' @
     ''timebeat> logs 100\<newline>'' @
     ''timebeat> enable ptp\<newline>'' @
     ''timebeat> disable nmea\<newline>'' @
     ''timebeat> protocols\<newline>'' @
     ''        ''"

definition show_help :: handler where
  "show_help E args w = (Inr help_text, w)"

definition show_status :: handler where
  "show_status E args w = (case get_status E w of (r, w1) \<Rightarrow> (Inr r, w1))"

definition srv_start_service :: handler where
  "srv_start_service E args w = (case start_service E w of (r, w1) \<Rightarrow> (Inr r, w1))"

definition srv_stop_service :: handler where
  "srv_stop_service E args w = (case stop_service E w of (r, w1) \<Rightarrow> (Inr r, w1))"

definition srv_restart_service :: handler where
  "srv_restart_service E args w = (case restart_service E w of (r, w1) \<Rightarrow> (Inr r, w1))"

text \<open>\<open>int(args[0])\<close> is outside any \<open>try\<close>: its exception leaves the handler.\<close>

definition show_logs :: handler where
  "show_logs E args w =
     (case args of
        [] \<Rightarrow> (case get_logs E 50 w of (r, w1) \<Rightarrow> (Inr r, w1))
      | a # rest \<Rightarrow>
          if isdigit a then
            (case py_int a of
               Inl e \<Rightarrow> (Inl e, w)
             | Inr lines \<Rightarrow> (case get_logs E lines w of (r, w1) \<Rightarrow> (Inr r, w1)))
          else (case get_logs E 50 w of (r, w1) \<Rightarrow> (Inr r, w1)))"

definition srv_list_protocols :: handler where
  "srv_list_protocols E args w = (Inr (list_protocols E (heap w) (config w)), w)"

definition enable_protocol :: handler where
  "enable_protocol E args w =
     (case args of
        [] \<Rightarrow> (Inr ''Usage: enable <protocol>'', w)
      | protocol # rest \<Rightarrow>
          (let clock_type = (case rest of [] \<Rightarrow> ''primary'' | c # cs \<Rightarrow> c) in
           case toggle_protocol E protocol clock_type w of
             (result, w1) \<Rightarrow>
               if contains ''ENABLED'' result then
                 (case restart_service E w1 of
                    (restart_result, w2) \<Rightarrow> (Inr (result @ ''\<newline>'' @ restart_result), w2))
               else (Inr result, w1)))"

definition disable_protocol :: handler where
  "disable_protocol E args w =
     (case args of
        [] \<Rightarrow> (Inr ''Usage: disable <protocol>'', w)
      | protocol # rest \<Rightarrow>
          (let clock_type = (case rest of [] \<Rightarrow> ''primary'' | c # cs \<Rightarrow> c) in
           case toggle_protocol E protocol clock_type w of
             (result, w1) \<Rightarrow>
               if contains ''DISABLED'' result then
                 (case restart_service E w1 of
                    (restart_result, w2) \<Rightarrow> (Inr (result @ ''\<newline>'' @ restart_result), w2))
               else (Inr result, w1)))"

definition clock_status :: handler where
  "clock_status E args w = (case get_clock_sync_status E w of (r, w1) \<Rightarrow> (Inr r, w1))"

definition show_config :: handler where
  "show_config E args w =
     (if truthy (heap w) (config w) then (Inr (dump E (heap w) (config w)), w)
      else (Inr ''Configuration not loaded'', w))"

definition reload_config :: handler where
  "reload_config E args w =
     (case load_config E w of
        (True, w1) \<Rightarrow> (Inr ''Configuration reloaded successfully'', w1)
      | (False, w1) \<Rightarrow> (Inr ''Failed to reload configuration'', w1))"

definition exit_session :: handler where
  "exit_session E args w = (Inr ''Goodbye!'', w)"

text \<open>\<open>self.commands\<close>\<close>

definition command_table :: "(string \<times> handler) list" where
  "command_table =
    [(''help'', show_help),
     (''status'', show_status),
     (''start'', srv_start_service),
     (''stop'', srv_stop_service),
     (''restart'', srv_restart_service),
     (''logs'', show_logs),
     (''protocols'', srv_list_protocols),
     (''enable'', enable_protocol),
     (''disable'', disable_protocol),
     (''clock'', clock_status),
     (''config'', show_config),
     (''reload'', reload_config),
     (''exit'', exit_session),
     (''quit'', exit_session)]"

definition commands :: "string \<Rightarrow> handler option" where
  "commands name = map_of command_table name"

text \<open>
  What \<open>await process.stdin.readline()\<close> gives in turn: a line, a break signal, or
  another exception. When the list is used up the input is at its end, and
  \<open>readline\<close> returns the empty string.
\<close>

datatype event = Line string | BreakReceived | ReadFault string

definition prompt :: string where
  "prompt = ''timebeat> ''"

text \<open>
  The body of the \<open>while\<close> loop after \<open>readline\<close> has returned \<open>line\<close>: \<open>None\<close> is
  \<open>break\<close>; otherwise what is written to the session, and the new state, before
  the next iteration.
\<close>

definition iteration :: "env \<Rightarrow> string \<Rightarrow> world \<Rightarrow> (string list \<times> world) option" where
  "iteration E line w =
     (if line = [] then None
      else
        let command_line = strip line in
        if command_line = [] then Some ([], w)
        else
          case split command_line of
            [] \<Rightarrow> None
          | part # args \<Rightarrow>
              (let command = lower part in
               case commands command of
                 Some h \<Rightarrow>
                   (case h E args w of
                      (Inr result, w1) \<Rightarrow> Some ([result @ ''\<newline>\<newline>''], w1)
                    | (Inl e, w1) \<Rightarrow>
                        Some ([''Error executing command: '' @ exn_str e @ ''\<newline>\<newline>''], w1))
               | None \<Rightarrow>
                   Some ([''Unknown command: '' @ command @ ''\<newline>'',
                          ''Type 'help' for available commands\<newline>\<newline>''], w)))"

text \<open>
  The \<open>while True\<close> loop: the texts written to the session, in order, and the last
  state. Every iteration writes the prompt first. A break signal or another exception
  of \<open>readline\<close> ends the loop, as the end of the input does; writing to the session
  is taken to succeed.
\<close>

fun session_loop :: "env \<Rightarrow> event list \<Rightarrow> world \<Rightarrow> string list \<times> world" where
  "session_loop E [] w = ([prompt], w)"
| "session_loop E (BreakReceived # rest) w = ([prompt], w)"
| "session_loop E (ReadFault msg # rest) w = ([prompt], w)"
| "session_loop E (Line line # rest) w =
     (case iteration E line w of
        None \<Rightarrow> ([prompt], w)
      | Some (out, w1) \<Rightarrow>
          (case session_loop E rest w1 of (out', w2) \<Rightarrow> (prompt # out @ out', w2)))"

text \<open>\<open>handle_client\<close>: the greeting, the loop, and the exit status of the process.\<close>

definition handle_client :: "env \<Rightarrow> event list \<Rightarrow> world \<Rightarrow> string list \<times> world \<times> int" where
  "handle_client E events w =
     (case session_loop E events w of
        (out, w1) \<Rightarrow>
          (''Welcome to Timebeat SSH CLI Interface\<newline>''
             # ''Type 'help' for available commands\<newline>\<newline>'' # out, w1, 0))"

section \<open>Notions used in the statements\<close>

text \<open>
  The test of the loop of \<open>toggle_protocol\<close> on one clock,
  \<open>clock.get('protocol', '').lower() == protocol.lower()\<close>: \<open>matches\<close> when it is
  true, \<open>skipped\<close> when it is false; neither when it raises.
\<close>

definition matches :: "dict_heap \<Rightarrow> string \<Rightarrow> yaml \<Rightarrow> bool" where
  "matches h protocol clock =
     (bind (py_get h clock ''protocol'' (YStr [])) yaml_lower = Inr (lower protocol))"

definition skipped :: "dict_heap \<Rightarrow> string \<Rightarrow> yaml \<Rightarrow> bool" where
  "skipped h protocol clock =
     (case bind (py_get h clock ''protocol'' (YStr [])) yaml_lower of
        Inr lp \<Rightarrow> lp \<noteq> lower protocol
      | Inl e \<Rightarrow> False)"

text \<open>
  \<open>clock.get('disable', False)\<close>, and its truth value: the flag as \<open>list_protocols\<close>
  and \<open>toggle_protocol\<close> read it.
\<close>

definition flag :: "dict_heap \<Rightarrow> yaml \<Rightarrow> yaml" where
  "flag h clock =
     (case py_get h clock ''disable'' (YBool False) of Inr v \<Rightarrow> v | Inl e \<Rightarrow> YBool False)"

definition disabled :: "dict_heap \<Rightarrow> yaml \<Rightarrow> bool" where
  "disabled h clock = truthy h (flag h clock)"

text \<open>The clock has the key \<open>disable\<close>, with a boolean.\<close>

definition has_bool_flag :: "dict_heap \<Rightarrow> yaml \<Rightarrow> bool" where
  "has_bool_flag h clock =
     (case py_get h clock ''disable'' YNone of Inr (YBool b) \<Rightarrow> True | _ \<Rightarrow> False)"

text \<open>
  The flags of the clocks of a class, in the order of the list, as the program reads
  them.
\<close>

definition class_flags :: "dict_heap \<Rightarrow> yaml \<Rightarrow> string \<Rightarrow> bool list" where
  "class_flags h doc key =
     (case get_clocks h doc key of Inr (YList clocks) \<Rightarrow> map (disabled h) clocks | _ \<Rightarrow> [])"

text \<open>The reply of \<open>toggle_protocol\<close> after a successful save.\<close>

definition toggled_text :: "string \<Rightarrow> string \<Rightarrow> string \<Rightarrow> string" where
  "toggled_text protocol new_status clock_type =
     ''Protocol '' @ upper protocol @ '' '' @ new_status @ '' in '' @ clock_type @ '' clocks''"

section \<open>Example environments and documents\<close>

text \<open>An environment in which every tool exits with status 0 and every save succeeds.\<close>

definition env_ok :: env where
  "env_ok =
     \<lparr>run = (\<lambda>t argv. Completed 0 ''active (running)'' []),
      fs_write = (\<lambda>t. Written),
      fs_read = (\<lambda>t. True),
      dump = (\<lambda>h doc. ''dumped''),
      parse = (\<lambda>text. None),
      repr = (\<lambda>h y. ''...'')\<rparr>"

text \<open>
  A document with one primary clock, \<open>{protocol: ptp}\<close>: no \<open>disable\<close>, so enabled.
  The dictionaries of the document are at the addresses 0 (the document), 1
  (\<open>timebeat\<close>), 2 (\<open>clock_sync\<close>) and 3 (the clock).
\<close>

definition heap_ptp :: dict_heap where
  "heap_ptp =
     (\<lambda>a. [])
       (0 := [(''timebeat'', YDict 1)],
        1 := [(''clock_sync'', YDict 2)],
        2 := [(''primary_clocks'', YList [YDict 3])],
        3 := [(''protocol'', YStr ''ptp'')])"

definition world_ptp :: world where
  "world_ptp =
     \<lparr>config = YDict 0, heap = heap_ptp, disk = ''timebeat: ...'', calls = [], steps = 0\<rparr>"

text \<open>
  A document with three primary clocks, two of them \<open>ptp\<close> (written \<open>PTP\<close> and \<open>ptp\<close>),
  and one secondary clock, also \<open>ptp\<close>: four different objects, at the addresses 3
  to 6.
\<close>

definition heap_two :: dict_heap where
  "heap_two =
     (\<lambda>a. [])
       (0 := [(''timebeat'', YDict 1)],
        1 := [(''clock_sync'', YDict 2)],
        2 := [(''primary_clocks'', YList [YDict 3, YDict 4, YDict 5]),
              (''secondary_clocks'', YList [YDict 6])],
        3 := [(''protocol'', YStr ''ntp''), (''ip'', YStr ''10.0.0.1'')],
        4 := [(''protocol'', YStr ''PTP''), (''disable'', YBool True), (''interface'', YStr ''eth0'')],
        5 := [(''protocol'', YStr ''ptp''), (''disable'', YBool True), (''interface'', YStr ''eth1'')],
        6 := [(''protocol'', YStr ''ptp''), (''disable'', YBool True)])"

definition world_two :: world where
  "world_two =
     \<lparr>config = YDict 0, heap = heap_two, disk = ''timebeat: ...'', calls = [], steps = 0\<rparr>"

text \<open>
  The document that \<open>yaml.safe_load\<close> builds from a file with an anchor and two
  aliases, \<open>primary_clocks: [&c {protocol: ptp, disable: true}, *c]\<close> and
  \<open>secondary_clocks: [*c]\<close>: the three places hold one object, at the address 3.
\<close>

definition heap_alias :: dict_heap where
  "heap_alias =
     (\<lambda>a. [])
       (0 := [(''timebeat'', YDict 1)],
        1 := [(''clock_sync'', YDict 2)],
        2 := [(''primary_clocks'', YList [YDict 3, YDict 3]),
              (''secondary_clocks'', YList [YDict 3])],
        3 := [(''protocol'', YStr ''ptp''), (''disable'', YBool True)])"

definition world_alias :: world where
  "world_alias =
     \<lparr>config = YDict 0, heap = heap_alias, disk = ''timebeat: ...'', calls = [], steps = 0\<rparr>"

text \<open>Environments in which the save fails: at the write, after the open; at the open.\<close>

definition env_write_fails :: env where
  "env_write_fails = env_ok\<lparr>fs_write := (\<lambda>t. WriteFailed 0)\<rparr>"

definition env_open_fails :: env where
  "env_open_fails = env_ok\<lparr>fs_write := (\<lambda>t. OpenFailed)\<rparr>"

text \<open>
  An environment in which the service manager exits with status 3 (the service is not
  running), with text on both streams.
\<close>

definition env_inactive :: env where
  "env_inactive = env_ok\<lparr>run := (\<lambda>t argv. Completed 3 ''inactive (dead)'' ''Unit not found'')\<rparr>"

text \<open>
  Environments for the clock tools: the second tool cannot be started; the first
  tool exits with status 1 and an error text.
\<close>

definition env_no_timedatectl :: env where
  "env_no_timedatectl = env_ok\<lparr>run := (\<lambda>t argv.
     if argv = [''chrony'', ''sources''] then Completed 0 ''MS Name/IP address'' []
     else Raised ''No such file or directory'')\<rparr>"

definition env_chrony_exit1 :: env where
  "env_chrony_exit1 = env_ok\<lparr>run := (\<lambda>t argv.
     if argv = [''chrony'', ''sources''] then Completed 1 [] ''506 Cannot talk to daemon''
     else Completed 0 ''Local time: Wed'' [])\<rparr>"

section \<open>Evaluation and auxiliary facts\<close>

lemmas text_defs = lower_def lower_char_def upper_def upper_char_def upper_letters_def lower_letters_def
  isspace_def whitespace_def isdigit_def decimal_digits_def superscript_digits_def strip_def split_def
  quoted_def str_int_def str_nat.simps py_int_def digit_val_def bind_def
lemmas cli_defs = subprocess_run_def load_config_def save_config_def get_status_def start_service_def
  stop_service_def restart_service_def get_logs_def get_clock_sync_status_def get_clocks_def
  render_clock_def list_protocols_def toggle_protocol_def
lemmas srv_defs = show_help_def show_status_def srv_start_service_def srv_stop_service_def
  srv_restart_service_def show_logs_def srv_list_protocols_def enable_protocol_def disable_protocol_def
  clock_status_def show_config_def reload_config_def exit_session_def command_table_def commands_def
  prompt_def iteration_def handle_client_def
lemmas ex_defs = env_ok_def heap_ptp_def world_ptp_def heap_two_def world_two_def heap_alias_def
  world_alias_def matches_def skipped_def flag_def disabled_def has_bool_flag_def toggled_text_def
  class_flags_def

lemmas ex2_defs = env_write_fails_def env_open_fails_def env_inactive_def env_no_timedatectl_def
  env_chrony_exit1_def

lemmas all_defs = text_defs cli_defs srv_defs ex_defs ex2_defs Let_def









lemma show_logs_requests:
  "calls (snd (show_logs E [] w)) = calls w @ [[''journalctl'', ''-u'', ''timebeat'', ''-n'', ''50'']]"
  "\<not> isdigit a \<Longrightarrow>
   calls (snd (show_logs E (a # rest) w)) = calls w @ [[''journalctl'', ''-u'', ''timebeat'', ''-n'', ''50'']]"
  "py_int a = Inr n \<Longrightarrow> isdigit a \<Longrightarrow>
   calls (snd (show_logs E (a # rest) w)) = calls w @ [[''journalctl'', ''-u'', ''timebeat'', ''-n'', str_int n]]"
proof -
  have f: "str_int 50 = ''50''" by (simp add: str_int_def str_nat.simps decimal_digits_def)
  show "calls (snd (show_logs E [] w)) = calls w @ [[''journalctl'', ''-u'', ''timebeat'', ''-n'', ''50'']]"
    by (simp add: show_logs_def get_logs_def subprocess_run_def case_prod_beta f split: proc.splits)
  show "\<not> isdigit a \<Longrightarrow>
   calls (snd (show_logs E (a # rest) w)) = calls w @ [[''journalctl'', ''-u'', ''timebeat'', ''-n'', ''50'']]"
    by (simp add: show_logs_def get_logs_def subprocess_run_def case_prod_beta f split: proc.splits)
  show "py_int a = Inr n \<Longrightarrow> isdigit a \<Longrightarrow>
   calls (snd (show_logs E (a # rest) w)) = calls w @ [[''journalctl'', ''-u'', ''timebeat'', ''-n'', str_int n]]"
    by (simp add: show_logs_def get_logs_def subprocess_run_def case_prod_beta split: proc.splits)
qed

lemma key_not_disable: "ct @ ''_clocks'' \<noteq> ''disable''"
proof
  assume "ct @ ''_clocks'' = ''disable''"
  then have "last (ct @ ''_clocks'') = last ''disable''" by (rule arg_cong)
  then show False by simp
qed

lemma py_find_frame:
  "k \<noteq> ''disable'' \<Longrightarrow> py_find (h(a := AList.update ''disable'' v (h a))) y k = py_find h y k"
  by (cases y) (simp_all add: update_conv')

lemma py_get_frame:
  "k \<noteq> ''disable'' \<Longrightarrow>
   py_get (h(a := AList.update ''disable'' v (h a))) y k d = py_get h y k d"
  by (cases y) (simp_all add: update_conv')

lemma get_clocks_frame:
  "get_clocks (h(a := AList.update ''disable'' v (h a))) doc (ct @ ''_clocks'') =
   get_clocks h doc (ct @ ''_clocks'')"
  by (simp add: get_clocks_def py_find_frame py_get_frame key_not_disable
      cong: option.case_cong)

lemma matches_frame:
  "matches (h(a := AList.update ''disable'' v (h a))) p = matches h p"
  by (rule ext) (simp add: matches_def py_get_frame)

lemma skipped_frame:
  "skipped (h(a := AList.update ''disable'' v (h a))) p = skipped h p"
  by (rule ext) (simp add: skipped_def py_get_frame)

lemma flag_after:
  "flag (h(a := AList.update ''disable'' v (h a))) (YDict a) = v"
  by (simp add: flag_def update_conv')

lemma disabled_after:
  "disabled (h(a := AList.update ''disable'' (YBool b) (h a))) (YDict a) = b"
  by (simp add: disabled_def flag_after)

lemma find_clock_skip1:
  "skipped h p c \<Longrightarrow> find_clock h p (c # r) = find_clock h p r"
  by (auto simp add: skipped_def bind_def split: sum.splits)

lemma find_clock_skip:
  "list_all (skipped h p) pre \<Longrightarrow> find_clock h p (pre @ r) = find_clock h p r"
proof (induction pre)
  case Nil
  then show ?case by simp
next
  case (Cons c pre)
  then show ?case by (simp add: find_clock_skip1 del: find_clock.simps)
qed

lemma find_clock_match:
  "matches h p c \<Longrightarrow> find_clock h p (c # r) = Inr (Some (c, flag h c))"
  by (cases c) (auto simp add: matches_def flag_def bind_def split: sum.splits)

lemma clocks_truthy:
  assumes "get_clocks h doc key = Inr (YList l)" and "l \<noteq> []"
  shows "truthy h doc"
proof (cases doc)
  case (YDict a)
  with assms show ?thesis
    by (cases "map_of (h a) ''timebeat''") (auto simp add: get_clocks_def bind_def)
qed (use assms in \<open>simp_all add: get_clocks_def bind_def\<close>)

lemma toggle_found:
  assumes clocks: "get_clocks (heap w) (config w) (ct @ ''_clocks'') = Inr (YList (pre @ YDict a # post))"
    and pre: "list_all (skipped (heap w) p) pre"
    and c: "matches (heap w) p (YDict a)"
  shows "toggle_protocol E p ct w =
     (case save_config E
        (w\<lparr>heap := (heap w)(a := AList.update ''disable''
                      (YBool (\<not> disabled (heap w) (YDict a))) (heap w a))\<rparr>) of
        (True, w1) \<Rightarrow>
          (toggled_text p (if disabled (heap w) (YDict a) then ''ENABLED'' else ''DISABLED'') ct, w1)
      | (False, w1) \<Rightarrow> (''Failed to save configuration'', w1))"
proof -
  have t: "truthy (heap w) (config w)" by (rule clocks_truthy[OF clocks]) simp
  have f: "find_clock (heap w) p (pre @ YDict a # post) = Inr (Some (YDict a, flag (heap w) (YDict a)))"
    using find_clock_skip[OF pre, of "YDict a # post"] find_clock_match[OF c] by simp
  show ?thesis
    unfolding toggle_protocol_def using t clocks f
    by (simp add: bind_def toggled_text_def disabled_def split: prod.splits bool.splits)
qed

lemma toggle_written:
  assumes "get_clocks (heap w) (config w) (ct @ ''_clocks'') = Inr (YList (pre @ YDict a # post))"
    and "list_all (skipped (heap w) p) pre"
    and "matches (heap w) p (YDict a)"
    and "fs_write E (steps w) = Written"
  shows "toggle_protocol E p ct w =
     (toggled_text p (if disabled (heap w) (YDict a) then ''ENABLED'' else ''DISABLED'') ct,
      w\<lparr>heap := (heap w)(a := AList.update ''disable''
                    (YBool (\<not> disabled (heap w) (YDict a))) (heap w a)),
        steps := Suc (steps w),
        disk := dump E ((heap w)(a := AList.update ''disable''
                    (YBool (\<not> disabled (heap w) (YDict a))) (heap w a))) (config w)\<rparr>)"
  unfolding toggle_found[OF assms(1,2,3)] using assms(4)
  by (simp add: save_config_def Let_def)

lemma heap_same_iff:
  "(h(a := AList.update ''disable'' (YBool (disabled h (YDict a))) (h a)) = h)
     = has_bool_flag h (YDict a)"
proof
  assume "h(a := AList.update ''disable'' (YBool (disabled h (YDict a))) (h a)) = h"
  then have "AList.update ''disable'' (YBool (disabled h (YDict a))) (h a) = h a"
    by (metis fun_upd_same)
  then have "map_of (h a) ''disable'' = Some (YBool (disabled h (YDict a)))"
    by (metis update_conv' fun_upd_same)
  then show "has_bool_flag h (YDict a)" by (simp add: has_bool_flag_def)
next
  assume "has_bool_flag h (YDict a)"
  then obtain b where b: "map_of (h a) ''disable'' = Some (YBool b)"
    by (auto simp add: has_bool_flag_def split: option.splits yaml.splits)
  then have "disabled h (YDict a) = b" by (simp add: disabled_def flag_def)
  with b have "AList.update ''disable'' (YBool (disabled h (YDict a))) (h a) = h a"
    by (simp add: update_triv)
  then show "h(a := AList.update ''disable'' (YBool (disabled h (YDict a))) (h a)) = h"
    by simp
qed

section \<open>Claims\<close>

text \<open>
  C6, as stated, fails: the write of \<open>toggle_protocol\<close> goes into the object of the
  first match, and an anchor with its aliases is one object. In the document with
  \<open>primary_clocks: [&c {protocol: ptp, disable: true}, *c]\<close> and
  \<open>secondary_clocks: [*c]\<close>, one toggle of \<open>ptp\<close> in the primary class changes the flag
  of the later matching clock and of the clock of the other class as well.
\<close>

theorem toggle_protocol_alias_counterexample:
  "get_clocks (heap world_alias) (config world_alias) ''primary_clocks'' = Inr (YList [YDict 3, YDict 3])
   \<and> get_clocks (heap world_alias) (config world_alias) ''secondary_clocks'' = Inr (YList [YDict 3])
   \<and> matches (heap world_alias) ''ptp'' (YDict 3)
   \<and> class_flags (heap world_alias) (config world_alias) ''primary_clocks'' = [True, True]
   \<and> class_flags (heap world_alias) (config world_alias) ''secondary_clocks'' = [True]
   \<and> fst (toggle_protocol env_ok ''ptp'' ''primary'' world_alias) = ''Protocol PTP ENABLED in primary clocks''
   \<and> class_flags (heap (snd (toggle_protocol env_ok ''ptp'' ''primary'' world_alias)))
        (config (snd (toggle_protocol env_ok ''ptp'' ''primary'' world_alias))) ''primary_clocks''
        = [False, False]
   \<and> class_flags (heap (snd (toggle_protocol env_ok ''ptp'' ''primary'' world_alias)))
        (config (snd (toggle_protocol env_ok ''ptp'' ''primary'' world_alias))) ''secondary_clocks''
        = [False]"
  by (simp add: text_defs cli_defs ex_defs Let_def)

text \<open>
  C6, amended. When the clocks of the selected class are \<open>pre @ YDict a # post\<close>,
  where the clock at the address \<open>a\<close> is the first that matches the name (the clocks
  of \<open>pre\<close> are passed over, those of \<open>post\<close> may match or not), \<open>toggle_protocol\<close>
  writes one object only, the dictionary at \<open>a\<close>, and in it only \<open>disable\<close>, which
  becomes the negation of its flag: every dictionary at another address, so every
  clock that is another object, matching or not, of either class, is as before, and
  so are the lists of clocks of every class. A clock that is the same object as the
  first match (an alias of it) changes with it. This holds whatever the outcome of
  the save.
\<close>

theorem toggle_protocol_writes_first_match:
  assumes "get_clocks (heap w) (config w) (clock_type @ ''_clocks'') = Inr (YList (pre @ YDict a # post))"
    and "list_all (skipped (heap w) protocol) pre"
    and "matches (heap w) protocol (YDict a)"
  shows "config (snd (toggle_protocol E protocol clock_type w)) = config w
     \<and> heap (snd (toggle_protocol E protocol clock_type w)) =
         (heap w)(a := AList.update ''disable'' (YBool (\<not> disabled (heap w) (YDict a))) (heap w a))
     \<and> get_clocks (heap (snd (toggle_protocol E protocol clock_type w)))
         (config (snd (toggle_protocol E protocol clock_type w))) (other_type @ ''_clocks'')
         = get_clocks (heap w) (config w) (other_type @ ''_clocks'')"
  unfolding toggle_found[OF assms]
  by (simp add: save_config_def Let_def get_clocks_frame split: write_result.splits)

theorem toggle_protocol_writes_first_match_witness:
  "config (snd (toggle_protocol env_ok ''ptp'' ''primary'' world_two)) = config world_two
   \<and> heap (snd (toggle_protocol env_ok ''ptp'' ''primary'' world_two)) 4 =
       [(''protocol'', YStr ''PTP''), (''disable'', YBool False), (''interface'', YStr ''eth0'')]
   \<and> heap (snd (toggle_protocol env_ok ''ptp'' ''primary'' world_two)) 3 = heap world_two 3
   \<and> heap (snd (toggle_protocol env_ok ''ptp'' ''primary'' world_two)) 5 = heap world_two 5
   \<and> heap (snd (toggle_protocol env_ok ''ptp'' ''primary'' world_two)) 6 = heap world_two 6
   \<and> matches (heap world_two) ''ptp'' (YDict 5)
   \<and> get_clocks (heap (snd (toggle_protocol env_ok ''ptp'' ''primary'' world_two)))
         (config (snd (toggle_protocol env_ok ''ptp'' ''primary'' world_two))) ''secondary_clocks''
       = Inr (YList [YDict 6])"
proof -
  have h1: "get_clocks (heap world_two) (config world_two) (''primary'' @ ''_clocks'')
      = Inr (YList ([YDict 3] @ YDict 4 # [YDict 5]))"
    by (simp add: ex_defs get_clocks_def bind_def)
  have h2: "list_all (skipped (heap world_two) ''ptp'') [YDict 3]"
    by (simp add: ex_defs text_defs)
  have h3: "matches (heap world_two) ''ptp'' (YDict 4)"
    by (simp add: ex_defs text_defs)
  have h4: "matches (heap world_two) ''ptp'' (YDict 5)"
    by (simp add: ex_defs text_defs)
  have d: "disabled (heap world_two) (YDict 4)"
    by (simp add: ex_defs)
  have s: "get_clocks (heap world_two) (config world_two) (''secondary'' @ ''_clocks'') = Inr (YList [YDict 6])"
    by (simp add: ex_defs get_clocks_def bind_def)
  have e: "heap world_two 4 =
      [(''protocol'', YStr ''PTP''), (''disable'', YBool True), (''interface'', YStr ''eth0'')]"
    by (simp add: ex_defs)
  note r = toggle_protocol_writes_first_match[OF h1 h2 h3, of env_ok "''secondary''"]
  let ?w = "snd (toggle_protocol env_ok ''ptp'' ''primary'' world_two)"
  have hp: "heap ?w = (heap world_two)
      (4 := [(''protocol'', YStr ''PTP''), (''disable'', YBool False), (''interface'', YStr ''eth0'')])"
    using r[THEN conjunct2, THEN conjunct1] d e by simp
  have a4: "heap ?w 4 =
      [(''protocol'', YStr ''PTP''), (''disable'', YBool False), (''interface'', YStr ''eth0'')]"
    and a3: "heap ?w 3 = heap world_two 3"
    and a5: "heap ?w 5 = heap world_two 5"
    and a6: "heap ?w 6 = heap world_two 6"
    unfolding hp by simp_all
  have g: "get_clocks (heap ?w) (config ?w) ''secondary_clocks'' = Inr (YList [YDict 6])"
    using r[THEN conjunct2, THEN conjunct2] s by simp
  from r[THEN conjunct1] a4 a3 a5 a6 h4 g show ?thesis by blast
qed

text \<open>
  C10, as stated, fails: a clock without the key \<open>disable\<close> (enabled by default) gets
  the key at the first toggle, and after the second toggle it holds
  \<open>disable: False\<close>, so the document is not the original one.
\<close>

theorem toggle_protocol_twice_counterexample:
  "matches (heap world_ptp) ''ptp'' (YDict 3)
   \<and> get_clocks (heap world_ptp) (config world_ptp) ''primary_clocks'' = Inr (YList [YDict 3])
   \<and> heap world_ptp 3 = [(''protocol'', YStr ''ptp'')]
   \<and> fst (toggle_protocol env_ok ''ptp'' ''primary'' world_ptp) = ''Protocol PTP DISABLED in primary clocks''
   \<and> fst (toggle_protocol env_ok ''ptp'' ''primary''
            (snd (toggle_protocol env_ok ''ptp'' ''primary'' world_ptp))) = ''Protocol PTP ENABLED in primary clocks''
   \<and> heap (snd (toggle_protocol env_ok ''ptp'' ''primary''
            (snd (toggle_protocol env_ok ''ptp'' ''primary'' world_ptp)))) 3
        = [(''protocol'', YStr ''ptp''), (''disable'', YBool False)]
   \<and> heap (snd (toggle_protocol env_ok ''ptp'' ''primary''
            (snd (toggle_protocol env_ok ''ptp'' ''primary'' world_ptp)))) \<noteq> heap world_ptp"
proof -
  let ?w2 = "snd (toggle_protocol env_ok ''ptp'' ''primary''
            (snd (toggle_protocol env_ok ''ptp'' ''primary'' world_ptp)))"
  have a: "heap ?w2 3 = [(''protocol'', YStr ''ptp''), (''disable'', YBool False)]"
    by (simp add: text_defs cli_defs ex_defs Let_def)
  have b: "heap world_ptp 3 = [(''protocol'', YStr ''ptp'')]"
    by (simp add: ex_defs)
  have ne: "heap ?w2 \<noteq> heap world_ptp"
  proof
    assume "heap ?w2 = heap world_ptp"
    then have "heap ?w2 3 = heap world_ptp 3" by simp
    then show False unfolding a b by simp
  qed
  have rest: "matches (heap world_ptp) ''ptp'' (YDict 3)
   \<and> get_clocks (heap world_ptp) (config world_ptp) ''primary_clocks'' = Inr (YList [YDict 3])
   \<and> fst (toggle_protocol env_ok ''ptp'' ''primary'' world_ptp) = ''Protocol PTP DISABLED in primary clocks''
   \<and> fst (toggle_protocol env_ok ''ptp'' ''primary''
            (snd (toggle_protocol env_ok ''ptp'' ''primary'' world_ptp))) = ''Protocol PTP ENABLED in primary clocks''"
    by (simp add: text_defs cli_defs ex_defs Let_def)
  from rest a b ne show ?thesis by blast
qed

text \<open>
  C10, amended. With the clocks of the class \<open>pre @ YDict a # post\<close>, the clock at \<open>a\<close>
  the first match, and both saves succeeding, two calls of \<open>toggle_protocol\<close> write
  one object only, the dictionary at \<open>a\<close>, and leave in it \<open>disable\<close> set to the truth
  value of its original flag (the clocks that are aliases of it are that object);
  the two replies report opposite states; and the document is the original one
  exactly when the clock had the key \<open>disable\<close> with a boolean.
\<close>

theorem toggle_protocol_twice:
  assumes clocks: "get_clocks (heap w) (config w) (clock_type @ ''_clocks'') = Inr (YList (pre @ YDict a # post))"
    and pre: "list_all (skipped (heap w) protocol) pre"
    and c: "matches (heap w) protocol (YDict a)"
    and save1: "fs_write E (steps w) = Written"
    and save2: "fs_write E (Suc (steps w)) = Written"
  shows "case toggle_protocol E protocol clock_type w of (r1, w1) \<Rightarrow>
         case toggle_protocol E protocol clock_type w1 of (r2, w2) \<Rightarrow>
           config w2 = config w
           \<and> heap w2 =
               (heap w)(a := AList.update ''disable'' (YBool (disabled (heap w) (YDict a))) (heap w a))
           \<and> r1 = toggled_text protocol (if disabled (heap w) (YDict a) then ''ENABLED'' else ''DISABLED'') clock_type
           \<and> r2 = toggled_text protocol (if disabled (heap w) (YDict a) then ''DISABLED'' else ''ENABLED'') clock_type
           \<and> (heap w2 = heap w) = has_bool_flag (heap w) (YDict a)"
proof -
  let ?h = "heap w"
  let ?d = "disabled ?h (YDict a)"
  let ?h1 = "?h(a := AList.update ''disable'' (YBool (\<not> ?d)) (?h a))"
  let ?w1 = "w\<lparr>heap := ?h1, steps := Suc (steps w), disk := dump E ?h1 (config w)\<rparr>"
  let ?h2 = "?h1(a := AList.update ''disable'' (YBool (\<not> disabled ?h1 (YDict a))) (?h1 a))"
  let ?w2 = "?w1\<lparr>heap := ?h2, steps := Suc (steps ?w1), disk := dump E ?h2 (config ?w1)\<rparr>"
  have t1: "toggle_protocol E protocol clock_type w =
      (toggled_text protocol (if ?d then ''ENABLED'' else ''DISABLED'') clock_type, ?w1)"
    by (rule toggle_written[OF clocks pre c save1])
  have clocks1: "get_clocks (heap ?w1) (config ?w1) (clock_type @ ''_clocks'')
      = Inr (YList (pre @ YDict a # post))"
    using clocks by (simp add: get_clocks_frame)
  have pre1: "list_all (skipped (heap ?w1) protocol) pre"
    using pre by (simp add: skipped_frame)
  have c1: "matches (heap ?w1) protocol (YDict a)"
    using c by (simp add: matches_frame)
  have s2: "fs_write E (steps ?w1) = Written" using save2 by simp
  have d1: "disabled ?h1 (YDict a) = (\<not> ?d)" by (rule disabled_after)
  have h2: "?h2 = ?h(a := AList.update ''disable'' (YBool ?d) (?h a))"
    by (simp add: d1)
  have t2: "toggle_protocol E protocol clock_type ?w1 =
      (toggled_text protocol (if ?d then ''DISABLED'' else ''ENABLED'') clock_type, ?w2)"
    using toggle_written[OF clocks1 pre1 c1 s2] d1 by simp
  show ?thesis
    unfolding t1 prod.case t2 using h2 heap_same_iff[of ?h a] by simp
qed

theorem toggle_protocol_twice_witness:
  "fst (toggle_protocol env_ok ''ptp'' ''primary'' world_two) = ''Protocol PTP ENABLED in primary clocks''
   \<and> fst (toggle_protocol env_ok ''ptp'' ''primary''
            (snd (toggle_protocol env_ok ''ptp'' ''primary'' world_two))) = ''Protocol PTP DISABLED in primary clocks''
   \<and> config (snd (toggle_protocol env_ok ''ptp'' ''primary''
            (snd (toggle_protocol env_ok ''ptp'' ''primary'' world_two)))) = config world_two
   \<and> heap (snd (toggle_protocol env_ok ''ptp'' ''primary''
            (snd (toggle_protocol env_ok ''ptp'' ''primary'' world_two)))) = heap world_two"
proof -
  have h1: "get_clocks (heap world_two) (config world_two) (''primary'' @ ''_clocks'')
      = Inr (YList ([YDict 3] @ YDict 4 # [YDict 5]))"
    by (simp add: ex_defs get_clocks_def bind_def)
  have h2: "list_all (skipped (heap world_two) ''ptp'') [YDict 3]"
    by (simp add: ex_defs text_defs)
  have h3: "matches (heap world_two) ''ptp'' (YDict 4)"
    by (simp add: ex_defs text_defs)
  have s1: "fs_write env_ok (steps world_two) = Written"
    and s2: "fs_write env_ok (Suc (steps world_two)) = Written"
    by (simp_all add: ex_defs)
  have d: "disabled (heap world_two) (YDict 4)" and b: "has_bool_flag (heap world_two) (YDict 4)"
    by (simp_all add: ex_defs)
  have t: "toggled_text ''ptp'' ''ENABLED'' ''primary'' = ''Protocol PTP ENABLED in primary clocks''"
    "toggled_text ''ptp'' ''DISABLED'' ''primary'' = ''Protocol PTP DISABLED in primary clocks''"
    by (simp_all add: ex_defs text_defs)
  note r = toggle_protocol_twice[OF h1 h2 h3 s1 s2, unfolded case_prod_beta]
  have r1: "fst (toggle_protocol env_ok ''ptp'' ''primary'' world_two) = ''Protocol PTP ENABLED in primary clocks''"
    using r[THEN conjunct2, THEN conjunct2, THEN conjunct1] d t by simp
  have r2: "fst (toggle_protocol env_ok ''ptp'' ''primary''
            (snd (toggle_protocol env_ok ''ptp'' ''primary'' world_two))) = ''Protocol PTP DISABLED in primary clocks''"
    using r[THEN conjunct2, THEN conjunct2, THEN conjunct2, THEN conjunct1] d t by simp
  have r3: "heap (snd (toggle_protocol env_ok ''ptp'' ''primary''
            (snd (toggle_protocol env_ok ''ptp'' ''primary'' world_two)))) = heap world_two"
    using r[THEN conjunct2, THEN conjunct2, THEN conjunct2, THEN conjunct2] b by simp
  from r[THEN conjunct1] r1 r2 r3 show ?thesis by blast
qed

text \<open>
  C5, as stated, fails: when the write fails after the file has been opened, the
  file has been truncated, and holds what was written before the failure.
\<close>

theorem toggle_protocol_save_failure_counterexample:
  "matches (heap world_ptp) ''ptp'' (YDict 3)
   \<and> get_clocks (heap world_ptp) (config world_ptp) ''primary_clocks'' = Inr (YList [YDict 3])
   \<and> fs_write env_write_fails (steps world_ptp) = WriteFailed 0
   \<and> fst (toggle_protocol env_write_fails ''ptp'' ''primary'' world_ptp) = ''Failed to save configuration''
   \<and> disk world_ptp = ''timebeat: ...''
   \<and> disk (snd (toggle_protocol env_write_fails ''ptp'' ''primary'' world_ptp)) = []"
  by (simp add: text_defs cli_defs ex_defs ex2_defs Let_def)

text \<open>
  C5, amended. When the save fails for a matching clock, \<open>toggle_protocol\<close> replies
  with the save-failure message and the document in memory keeps the negated flag;
  the file is unchanged when the failure is at the open, and holds the first \<open>n\<close>
  characters of the new text when the write fails after \<open>n\<close> characters; and
  \<open>save_config\<close> never changes the document in memory.
\<close>

theorem toggle_protocol_save_failure:
  assumes clocks: "get_clocks (heap w) (config w) (clock_type @ ''_clocks'') = Inr (YList (pre @ YDict a # post))"
    and pre: "list_all (skipped (heap w) protocol) pre"
    and c: "matches (heap w) protocol (YDict a)"
    and fail: "fs_write E (steps w) \<noteq> Written"
  shows "case toggle_protocol E protocol clock_type w of (r, w1) \<Rightarrow>
           r = ''Failed to save configuration''
           \<and> config w1 = config w
           \<and> heap w1 =
               (heap w)(a := AList.update ''disable'' (YBool (\<not> disabled (heap w) (YDict a))) (heap w a))
           \<and> get_clocks (heap w1) (config w1) (clock_type @ ''_clocks'') =
               Inr (YList (pre @ YDict a # post))
           \<and> disabled (heap w1) (YDict a) = (\<not> disabled (heap w) (YDict a))
           \<and> disk w1 =
               (case fs_write E (steps w) of
                  WriteFailed n \<Rightarrow> take n (dump E (heap w1) (config w1))
                | _ \<Rightarrow> disk w)
           \<and> config (snd (save_config E' v)) = config v
           \<and> heap (snd (save_config E' v)) = heap v"
  unfolding toggle_found[OF clocks pre c] using fail clocks
  by (simp add: save_config_def Let_def get_clocks_frame disabled_after split: write_result.splits)

theorem toggle_protocol_save_failure_witness:
  "fst (toggle_protocol env_open_fails ''ptp'' ''primary'' world_two) = ''Failed to save configuration''
   \<and> heap (snd (toggle_protocol env_open_fails ''ptp'' ''primary'' world_two)) 4 =
       [(''protocol'', YStr ''PTP''), (''disable'', YBool False), (''interface'', YStr ''eth0'')]
   \<and> \<not> disabled (heap (snd (toggle_protocol env_open_fails ''ptp'' ''primary'' world_two))) (YDict 4)
   \<and> disk (snd (toggle_protocol env_open_fails ''ptp'' ''primary'' world_two)) = disk world_two"
proof -
  have h1: "get_clocks (heap world_two) (config world_two) (''primary'' @ ''_clocks'')
      = Inr (YList ([YDict 3] @ YDict 4 # [YDict 5]))"
    by (simp add: ex_defs get_clocks_def bind_def)
  have h2: "list_all (skipped (heap world_two) ''ptp'') [YDict 3]"
    by (simp add: ex_defs text_defs)
  have h3: "matches (heap world_two) ''ptp'' (YDict 4)"
    by (simp add: ex_defs text_defs)
  have f: "fs_write env_open_fails (steps world_two) \<noteq> Written"
    by (simp add: ex_defs ex2_defs)
  have o: "fs_write env_open_fails (steps world_two) = OpenFailed"
    by (simp add: ex_defs ex2_defs)
  have d: "disabled (heap world_two) (YDict 4)"
    by (simp add: ex_defs)
  have e: "heap world_two 4 =
      [(''protocol'', YStr ''PTP''), (''disable'', YBool True), (''interface'', YStr ''eth0'')]"
    by (simp add: ex_defs)
  note r = toggle_protocol_save_failure[OF h1 h2 h3 f, unfolded case_prod_beta]
  let ?w = "snd (toggle_protocol env_open_fails ''ptp'' ''primary'' world_two)"
  have hp: "heap ?w = (heap world_two)
      (4 := [(''protocol'', YStr ''PTP''), (''disable'', YBool False), (''interface'', YStr ''eth0'')])"
    using r[THEN conjunct2, THEN conjunct2, THEN conjunct1] d e by simp
  have a4: "heap ?w 4 =
      [(''protocol'', YStr ''PTP''), (''disable'', YBool False), (''interface'', YStr ''eth0'')]"
    unfolding hp by simp
  have nd: "\<not> disabled (heap ?w) (YDict 4)"
    using r[THEN conjunct2, THEN conjunct2, THEN conjunct2, THEN conjunct2, THEN conjunct1] d by simp
  have dk: "disk ?w = disk world_two"
    using r[THEN conjunct2, THEN conjunct2, THEN conjunct2, THEN conjunct2, THEN conjunct2, THEN conjunct1] o
    by simp
  from r[THEN conjunct1] a4 nd dk show ?thesis by blast
qed

text \<open>
  C8, as stated, fails for \<open>get_status\<close>: on a non-zero exit status it returns the
  standard output of the tool, not an error line with its standard error.
\<close>

theorem get_status_counterexample:
  "run env_inactive (steps world_ptp) [''systemctl'', ''status'', ''timebeat'']
     = Completed 3 ''inactive (dead)'' ''Unit not found''
   \<and> fst (get_status env_inactive world_ptp) = ''inactive (dead)''
   \<and> \<not> contains ''Unit not found'' (fst (get_status env_inactive world_ptp))"
  by (simp add: cli_defs ex_defs ex2_defs)

text \<open>
  C8, amended. \<open>start_service\<close>, \<open>stop_service\<close> and \<open>restart_service\<close> return the
  success line on exit status 0 and a failure line with the standard error of the tool
  otherwise; \<open>get_status\<close> returns the standard output whatever the exit status; and
  when the invocation itself raises, each of the four returns an error line with the
  text of the exception.
\<close>

theorem service_actions_replies:
  "fst (get_status E w) =
     (case run E (steps w) [''systemctl'', ''status'', ''timebeat''] of
        Completed rc out err \<Rightarrow> out
      | Raised msg \<Rightarrow> ''Error getting status: '' @ msg)
   \<and> fst (start_service E w) =
     (case run E (steps w) [''systemctl'', ''start'', ''timebeat''] of
        Completed rc out err \<Rightarrow>
          if rc = 0 then ''Timebeat service started successfully''
          else ''Failed to start timebeat: '' @ err
      | Raised msg \<Rightarrow> ''Error starting service: '' @ msg)
   \<and> fst (stop_service E w) =
     (case run E (steps w) [''systemctl'', ''stop'', ''timebeat''] of
        Completed rc out err \<Rightarrow>
          if rc = 0 then ''Timebeat service stopped successfully''
          else ''Failed to stop timebeat: '' @ err
      | Raised msg \<Rightarrow> ''Error stopping service: '' @ msg)
   \<and> fst (restart_service E w) =
     (case run E (steps w) [''systemctl'', ''restart'', ''timebeat''] of
        Completed rc out err \<Rightarrow>
          if rc = 0 then ''Timebeat service restarted successfully''
          else ''Failed to restart timebeat: '' @ err
      | Raised msg \<Rightarrow> ''Error restarting service: '' @ msg)"
  by (simp add: get_status_def start_service_def stop_service_def restart_service_def
      subprocess_run_def split: proc.splits)

text \<open>
  C9, as stated, fails: when the second tool cannot be started, the output of the
  first is not in the result; and when a tool exits with a failure, the result has
  no note of it.
\<close>

theorem get_clock_sync_status_counterexample:
  "fst (get_clock_sync_status env_no_timedatectl world_ptp)
     = ''Error getting clock sync status: No such file or directory''
   \<and> \<not> contains ''MS Name/IP address'' (fst (get_clock_sync_status env_no_timedatectl world_ptp))
   \<and> fst (get_clock_sync_status env_chrony_exit1 world_ptp) = ''\<newline>Local time: Wed''
   \<and> \<not> contains ''506 Cannot talk to daemon'' (fst (get_clock_sync_status env_chrony_exit1 world_ptp))"
  by (simp add: cli_defs ex_defs ex2_defs)

text \<open>
  C9, amended. When both invocations complete, whatever their exit statuses,
  \<open>get_clock_sync_status\<close> returns the standard output of the first tool, a newline,
  and the standard output of the second, and nothing else; when an invocation raises,
  the result is only the error line with the text of the exception, and the second
  tool is not run when the first raised.
\<close>

theorem get_clock_sync_status_reply:
  "fst (get_clock_sync_status E w) =
     (case run E (steps w) [''chrony'', ''sources''] of
        Raised msg \<Rightarrow> ''Error getting clock sync status: '' @ msg
      | Completed rc1 out1 err1 \<Rightarrow>
          (case run E (Suc (steps w)) [''timedatectl'', ''status''] of
             Raised msg \<Rightarrow> ''Error getting clock sync status: '' @ msg
           | Completed rc2 out2 err2 \<Rightarrow> out1 @ ''\<newline>'' @ out2))
   \<and> calls (snd (get_clock_sync_status E w)) =
     (case run E (steps w) [''chrony'', ''sources''] of
        Raised msg \<Rightarrow> calls w @ [[''chrony'', ''sources'']]
      | Completed rc1 out1 err1 \<Rightarrow> calls w @ [[''chrony'', ''sources''], [''timedatectl'', ''status'']])"
  by (simp add: get_clock_sync_status_def subprocess_run_def split: proc.splits)



text \<open>
  C1. The code does not do what the claim says: the loop has no test for the
  terminate command. After \<open>exit\<close> the farewell is written, and then the loop writes
  the next prompt and dispatches the next line, here \<open>status\<close>, for which the service
  manager is run.
\<close>

theorem exit_does_not_end_session:
  "session_loop E (Line ''exit\<newline>'' # rest) w =
     (prompt # ''Goodbye!\<newline>\<newline>'' # fst (session_loop E rest w), snd (session_loop E rest w))
   \<and> handle_client E [Line ''exit\<newline>'', Line ''status\<newline>''] w =
     ([''Welcome to Timebeat SSH CLI Interface\<newline>'',
       ''Type 'help' for available commands\<newline>\<newline>'',
       ''timebeat> '', ''Goodbye!\<newline>\<newline>'',
       ''timebeat> '', fst (get_status E w) @ ''\<newline>\<newline>'',
       ''timebeat> ''],
      snd (get_status E w), 0)
   \<and> calls (snd (get_status E w)) = calls w @ [[''systemctl'', ''status'', ''timebeat'']]"
  by (simp add: text_defs srv_defs get_status_def subprocess_run_def case_prod_beta split: proc.splits)

text \<open>
  C2. The code does not do what the claim says: \<open>enable\<close> toggles. On a document whose
  only primary clock is \<open>ptp\<close>, enabled, \<open>enable ptp\<close> followed by \<open>protocols\<close> shows
  the clock as DISABLED, with every save and every tool succeeding.
\<close>

theorem enable_disables_enabled_protocol:
  "matches (heap world_ptp) ''ptp'' (YDict 3)
   \<and> get_clocks (heap world_ptp) (config world_ptp) ''primary_clocks'' = Inr (YList [YDict 3])
   \<and> heap world_ptp 3 = [(''protocol'', YStr ''ptp'')]
   \<and> class_flags (heap world_ptp) (config world_ptp) ''primary_clocks'' = [False]
   \<and> fst (handle_client env_ok [Line ''enable ptp\<newline>'', Line ''protocols\<newline>''] world_ptp) =
     [''Welcome to Timebeat SSH CLI Interface\<newline>'',
      ''Type 'help' for available commands\<newline>\<newline>'',
      ''timebeat> '', ''Protocol PTP DISABLED in primary clocks\<newline>\<newline>'',
      ''timebeat> '',
      ''=== PRIMARY CLOCKS ===\<newline>  PTP: DISABLED (N/A)\<newline>\<newline>=== SECONDARY CLOCKS ===\<newline>\<newline>'',
      ''timebeat> '']"
  by (simp add: all_defs)

text \<open>
  C3. The code does not do what the claim says: the test for the restart is
  \<open>"ENABLED" in result\<close>, and the not-found reply holds the name as it was typed.
  \<open>enable ENABLED\<close>, for a name that no clock has, gives the not-found reply, runs the
  restart, and returns both texts.
\<close>

theorem enable_restarts_when_not_found:
  "enable_protocol E [''ENABLED''] world_ptp =
     (Inr (''Protocol ENABLED not found in primary clocks'' @ ''\<newline>'' @ fst (restart_service E world_ptp)),
      snd (restart_service E world_ptp))
   \<and> calls (snd (restart_service E world_ptp)) = [[''systemctl'', ''restart'', ''timebeat'']]
   \<and> config (snd (restart_service E world_ptp)) = config world_ptp
   \<and> heap (snd (restart_service E world_ptp)) = heap world_ptp
   \<and> fst (toggle_protocol E ''ENABLED'' ''primary'' world_ptp) = ''Protocol ENABLED not found in primary clocks''"
  by (simp add: text_defs cli_defs enable_protocol_def ex_defs Let_def case_prod_beta split: proc.splits)

text \<open>
  C7. The code does not do what the claim says for \<open>logs\<close> with the argument U+00B2
  (superscript two): \<open>isdigit\<close> accepts it and \<open>int\<close> raises, so the handler neither
  asks for that many lines nor falls back to 50; no process is run, and the session
  gets the error text of the dispatch. (For no argument, for an argument that
  \<open>isdigit\<close> rejects and for a string of decimal digits the requests are as the
  claim says: \<open>show_logs_requests\<close>.)
\<close>

theorem logs_superscript_digit_raises:
  "isdigit [CHR 0xB2]
   \<and> show_logs E [[CHR 0xB2]] w =
       (Inl (ValueError (''invalid literal for int() with base 10: '' @ [CHR 0x27, CHR 0xB2, CHR 0x27])), w)
   \<and> iteration E (''logs '' @ [CHR 0xB2] @ ''\<newline>'') w =
       Some ([''Error executing command: invalid literal for int() with base 10: ''
                @ [CHR 0x27, CHR 0xB2, CHR 0x27] @ ''\<newline>\<newline>''], w)"
  by (simp add: text_defs srv_defs)

end
